theory Spec2Isabelle
  imports Main "HOL-Library.Word"
begin

section \<open>The web server of \<^verbatim>\<open>src/website/server.py\<close>\<close>

text \<open>
  The program is a Flask application with two view functions: \<^verbatim>\<open>index\<close>, bound to
  \<^verbatim>\<open>/\<close>, and \<^verbatim>\<open>run_script\<close>, bound to \<^verbatim>\<open>/run\<close> for the method POST. A view
  function either returns a response or lets an exception escape to Flask; the only
  effect either of them has is the call of \<^verbatim>\<open>subprocess.run\<close> in \<^verbatim>\<open>run_script\<close>.
  Both are modelled as functions that return the outcome (an exception or a response)
  and, for \<^verbatim>\<open>run_script\<close>, the list of the commands that its calls of
  \<^verbatim>\<open>subprocess.run\<close> ran, in order, as those calls recorded them.
\<close>

subsection \<open>Values\<close>

text \<open>
  What \<^verbatim>\<open>request.json\<close> yields: the Python value of a JSON text. \<^verbatim>\<open>None\<close> is
  \<open>JNull\<close>, a \<^verbatim>\<open>float\<close> is its 64 bits, a \<^verbatim>\<open>str\<close> is a \<open>string\<close>, and a \<^verbatim>\<open>dict\<close>
  is the list of its items, where the first item with a key is the entry of that key.
\<close>

datatype json =
    JNull
  | JBool bool
  | JInt int
  | JFloat "64 word"
  | JStr string
  | JArr "json list"
  | JObj "(string \<times> json) list"

text \<open>
  The exceptions that can reach the view functions: \<^verbatim>\<open>AttributeError\<close> (a method that
  the object does not have), \<^verbatim>\<open>subprocess.CalledProcessError\<close> with its fields
  \<^verbatim>\<open>returncode\<close>, \<^verbatim>\<open>cmd\<close>, \<^verbatim>\<open>output\<close> and \<^verbatim>\<open>stderr\<close>, an HTTP exception of werkzeug
  with its status code, and any other exception, by name.
\<close>

datatype pyexc =
    AttributeError
  | CalledProcessError int "json list" string string
  | HTTPException nat
  | OtherException string

type_synonym byte = "8 word"

datatype payload = Json json | Bytes "byte list"

record response =
  status :: nat
  payload :: payload

text \<open>
  The request as \<^verbatim>\<open>run_script\<close> reads it: only \<^verbatim>\<open>request.json\<close>, a property that Flask
  evaluates on access and that raises when the body cannot be read as JSON.
\<close>

record request =
  request_json :: "pyexc + json"

subsection \<open>Library calls\<close>

text \<open>\<^verbatim>\<open>obj.get(key)\<close>: \<^verbatim>\<open>dict.get\<close> with the default \<^verbatim>\<open>None\<close>; no other JSON value has
  a method \<^verbatim>\<open>get\<close>.\<close>

fun py_get :: "json \<Rightarrow> string \<Rightarrow> pyexc + json" where
  "py_get (JObj d) k = Inr (case map_of d k of None \<Rightarrow> JNull | Some v \<Rightarrow> v)"
| "py_get _ k = Inl AttributeError"

text \<open>\<^verbatim>\<open>x == s\<close> for a \<^verbatim>\<open>str\<close> \<open>s\<close>: only a \<^verbatim>\<open>str\<close> of the same characters is equal to it.\<close>

fun py_eq_str :: "json \<Rightarrow> string \<Rightarrow> bool" where
  "py_eq_str (JStr t) s = (t = s)"
| "py_eq_str _ s = False"

text \<open>\<^verbatim>\<open>x in xs\<close> for a list \<open>xs\<close> of \<^verbatim>\<open>str\<close>: some element is equal to \<open>x\<close>.\<close>

fun py_in :: "json \<Rightarrow> string list \<Rightarrow> bool" where
  "py_in x [] = False"
| "py_in x (s # ss) = (py_eq_str x s \<or> py_in x ss)"

text \<open>\<^verbatim>\<open>jsonify(v)\<close>: a response with status 200 whose body is the JSON text of \<open>v\<close>;
  \<^verbatim>\<open>return r, code\<close> from a view function sets the status of \<open>r\<close>.\<close>

definition jsonify :: "json \<Rightarrow> response" where
  "jsonify v = \<lparr>status = 200, payload = Json v\<rparr>"

definition with_status :: "response \<Rightarrow> nat \<Rightarrow> response" where
  "with_status r code = r\<lparr>status := code\<rparr>"

text \<open>
  A call of \<^verbatim>\<open>subprocess.run\<close> with its keyword arguments, and what the operating system
  makes of the command: the child runs to its end with a return code and the text of
  its two streams, or the call raises (the interpreter is not found, the output is not
  text).
\<close>

record run_args =
  args :: "json list"
  capture_output :: bool
  text_mode :: bool
  check :: bool

datatype proc_outcome = Exited int string string | Raised pyexc

record completed_process =
  cp_args :: "json list"
  returncode :: int
  stdout :: string
  stderr :: string

text \<open>\<^verbatim>\<open>subprocess.run\<close>, for calls that capture the output as text: it hands the
  command to the operating system and returns when the child has ended; with
  \<^verbatim>\<open>check=True\<close> a return code other than 0 raises \<^verbatim>\<open>CalledProcessError\<close>, which
  carries both streams. Beside what it returns or raises, it yields the record of its
  effect: the one command it ran.\<close>

definition subprocess_run ::
  "(json list \<Rightarrow> proc_outcome) \<Rightarrow> run_args \<Rightarrow> (pyexc + completed_process) \<times> run_args list" where
  "subprocess_run os a =
     (case os (args a) of
        Raised e \<Rightarrow> Inl e
      | Exited rc out err \<Rightarrow>
          if check a \<and> rc \<noteq> 0 then Inl (CalledProcessError rc (args a) out err)
          else Inr \<lparr>cp_args = args a, returncode = rc, stdout = out, stderr = err\<rparr>,
      [a])"

text \<open>
  Modelled from the spec: \<^verbatim>\<open>flask.send_from_directory\<close> is library code that is not in
  the repository. The spec says of it that it returns the byte content of the file
  under the static-asset root with status 200 and that an absent file is a NotFound
  error (HTTP 404). The file system is a map from a directory and a file name to the
  content of that file.
\<close>

definition send_from_directory ::
  "(string \<times> string \<rightharpoonup> byte list) \<Rightarrow> string \<Rightarrow> string \<Rightarrow> pyexc + response" where
  "send_from_directory fs directory path =
     (case fs (directory, path) of
        None \<Rightarrow> Inl (HTTPException 404)
      | Some content \<Rightarrow> Inr \<lparr>status = 200, payload = Bytes content\<rparr>)"

subsection \<open>The view functions\<close>

definition index :: "(string \<times> string \<rightharpoonup> byte list) \<Rightarrow> pyexc + response" where
  "index fs = send_from_directory fs ''static'' ''index.html''"

definition erlaubte_skripte :: "string list" where
  "erlaubte_skripte = [''dein_script.py'']"

definition run_script ::
  "(json list \<Rightarrow> proc_outcome) \<Rightarrow> request \<Rightarrow> (pyexc + response) \<times> run_args list" where
  "run_script os req =
     (case request_json req of
        Inl e \<Rightarrow> (Inl e, [])
      | Inr body \<Rightarrow>
          (case py_get body ''script'' of
             Inl e \<Rightarrow> (Inl e, [])
           | Inr script \<Rightarrow>
               if \<not> py_in script erlaubte_skripte then
                 (Inr (with_status (jsonify (JObj [(''error'', JStr ''Script nicht erlaubt'')])) 403), [])
               else
                 let call = \<lparr>args = [JStr ''python3'', script], capture_output = True,
                             text_mode = True, check = True\<rparr>
                 in (case subprocess_run os call of
                       (Inr result, spawned) \<Rightarrow>
                         (Inr (jsonify (JObj [(''output'', JStr (stdout result))])), spawned)
                     | (Inl (CalledProcessError rc cmd out err), spawned) \<Rightarrow>
                         (Inr (with_status (jsonify (JObj [(''error'', JStr err)])) 400), spawned)
                     | (Inl e, spawned) \<Rightarrow> (Inl e, spawned))))"

text \<open>Inputs for the concrete evaluations below: children that print \<^verbatim>\<open>hello\<close> and
  exit with 0, with and without a warning on the error stream; children that write
  \<^verbatim>\<open>boom\<close> to the error stream and exit with 1 or 2, with and without output; a
  system without the interpreter, where the call raises; the request whose body is a given JSON object; a request whose body Flask refuses with
  BadRequest; a file system with the page.\<close>

definition os_hello :: "json list \<Rightarrow> proc_outcome" where
  "os_hello argv = Exited 0 ''hello'' ''warning''"

definition os_boom :: "json list \<Rightarrow> proc_outcome" where
  "os_boom argv = Exited 1 ''partial'' ''boom''"

definition os_hello_quiet :: "json list \<Rightarrow> proc_outcome" where
  "os_hello_quiet argv = Exited 0 ''hello'' []"

definition os_boom_silent :: "json list \<Rightarrow> proc_outcome" where
  "os_boom_silent argv = Exited 2 [] ''boom''"

definition os_missing :: "json list \<Rightarrow> proc_outcome" where
  "os_missing argv = Raised (OtherException ''FileNotFoundError'')"

definition req_of :: "(string \<times> json) list \<Rightarrow> request" where
  "req_of d = \<lparr>request_json = Inr (JObj d)\<rparr>"

definition req_malformed :: request where
  "req_malformed = \<lparr>request_json = Inl (HTTPException 400)\<rparr>"

definition fs_page :: "string \<times> string \<rightharpoonup> byte list" where
  "fs_page = [(''static'', ''index.html'') \<mapsto> [60, 112, 62]]"

section \<open>Properties\<close>

subsection \<open>Auxiliary facts\<close>

lemma py_eq_str_iff: "py_eq_str v s = (v = JStr s)"
  by (cases v) auto

lemma py_in_iff: "py_in v ss = (v \<in> JStr ` set ss)"
  by (induction ss) (auto simp: py_eq_str_iff)

lemma py_in_erlaubte_skripte: "py_in v erlaubte_skripte = (v = JStr ''dein_script.py'')"
  by (simp add: py_in_iff erlaubte_skripte_def)

lemma in_erlaubte_skripte: "(v \<in> JStr ` set erlaubte_skripte) = (v = JStr ''dein_script.py'')"
  by (simp add: erlaubte_skripte_def)

lemma run_script_rejected:
  assumes "request_json req = Inr (JObj d)"
    and "py_get (JObj d) ''script'' = Inr v"
    and "v \<noteq> JStr ''dein_script.py''"
  shows "run_script os req =
    (Inr \<lparr>status = 403, payload = Json (JObj [(''error'', JStr ''Script nicht erlaubt'')])\<rparr>, [])"
  using assms
  by (simp add: run_script_def py_in_erlaubte_skripte jsonify_def with_status_def)

lemma run_script_exit_zero:
  assumes "request_json req = Inr (JObj d)"
    and "py_get (JObj d) ''script'' = Inr (JStr ''dein_script.py'')"
    and "os [JStr ''python3'', JStr ''dein_script.py''] = Exited 0 out err"
  shows "run_script os req =
    (Inr \<lparr>status = 200, payload = Json (JObj [(''output'', JStr out)])\<rparr>,
     [\<lparr>args = [JStr ''python3'', JStr ''dein_script.py''], capture_output = True,
       text_mode = True, check = True\<rparr>])"
  using assms
  by (simp add: run_script_def py_in_erlaubte_skripte subprocess_run_def jsonify_def)

lemma run_script_exit_nonzero:
  assumes "request_json req = Inr (JObj d)"
    and "py_get (JObj d) ''script'' = Inr (JStr ''dein_script.py'')"
    and "os [JStr ''python3'', JStr ''dein_script.py''] = Exited rc out err"
    and "rc \<noteq> 0"
  shows "run_script os req =
    (Inr \<lparr>status = 400, payload = Json (JObj [(''error'', JStr err)])\<rparr>,
     [\<lparr>args = [JStr ''python3'', JStr ''dein_script.py''], capture_output = True,
       text_mode = True, check = True\<rparr>])"
  using assms
  by (simp add: run_script_def py_in_erlaubte_skripte subprocess_run_def jsonify_def
      with_status_def)

lemma run_script_calls:
  assumes "request_json req = Inr (JObj d)"
    and "py_get (JObj d) ''script'' = Inr v"
  shows "snd (run_script os req) =
    (if v = JStr ''dein_script.py''
     then [\<lparr>args = [JStr ''python3'', v], capture_output = True, text_mode = True, check = True\<rparr>]
     else [])"
  using assms
  by (simp add: run_script_def py_in_erlaubte_skripte subprocess_run_def Let_def
      split: proc_outcome.split pyexc.split)

lemma run_script_not_object:
  assumes "request_json req = Inr body" and "\<forall>d. body \<noteq> JObj d"
  shows "run_script os req = (Inl AttributeError, [])"
  using assms by (cases body) (simp_all add: run_script_def)

subsection \<open>Validation\<close>

text \<open>
  C1: when the body of a POST to \<^verbatim>\<open>/run\<close> is a JSON object whose \<^verbatim>\<open>script\<close> value is not
  a member of the allow-list (the value of a missing field is \<^verbatim>\<open>None\<close>), the handler
  returns status 403 with a JSON object that has the one key \<^verbatim>\<open>error\<close>, and it makes
  no call of \<^verbatim>\<open>subprocess.run\<close>.
\<close>

theorem run_script_not_allowed_403:
  assumes "request_json req = Inr (JObj d)"
    and "py_get (JObj d) ''script'' = Inr v"
    and "v \<notin> JStr ` set erlaubte_skripte"
  shows "\<exists>msg. run_script os req =
    (Inr \<lparr>status = 403, payload = Json (JObj [(''error'', JStr msg)])\<rparr>, [])"
proof -
  from assms(3) have "v \<noteq> JStr ''dein_script.py''"
    by (simp add: in_erlaubte_skripte)
  with assms(1,2) show ?thesis
    by (simp add: run_script_rejected)
qed

theorem run_script_not_allowed_403_witness:
  "(\<exists>msg. run_script os_hello (req_of [(''script'', JStr ''other.py'')]) =
      (Inr \<lparr>status = 403, payload = Json (JObj [(''error'', JStr msg)])\<rparr>, []))
   \<and> (\<exists>msg. run_script os_hello (req_of [(''script'', JStr [])]) =
      (Inr \<lparr>status = 403, payload = Json (JObj [(''error'', JStr msg)])\<rparr>, []))
   \<and> (\<exists>msg. run_script os_hello (req_of [(''script'', JNull)]) =
      (Inr \<lparr>status = 403, payload = Json (JObj [(''error'', JStr msg)])\<rparr>, []))
   \<and> (\<exists>msg. run_script os_hello (req_of []) =
      (Inr \<lparr>status = 403, payload = Json (JObj [(''error'', JStr msg)])\<rparr>, []))
   \<and> (\<exists>msg. run_script os_hello (req_of [(''script'', JArr [JStr ''dein_script.py''])]) =
      (Inr \<lparr>status = 403, payload = Json (JObj [(''error'', JStr msg)])\<rparr>, []))"
  using
    run_script_not_allowed_403 [where req = "req_of [(''script'', JStr ''other.py'')]"
      and d = "[(''script'', JStr ''other.py'')]" and v = "JStr ''other.py''" and os = os_hello]
    run_script_not_allowed_403 [where req = "req_of [(''script'', JStr [])]"
      and d = "[(''script'', JStr [])]" and v = "JStr []" and os = os_hello]
    run_script_not_allowed_403 [where req = "req_of [(''script'', JNull)]"
      and d = "[(''script'', JNull)]" and v = JNull and os = os_hello]
    run_script_not_allowed_403 [where req = "req_of []"
      and d = "[]" and v = JNull and os = os_hello]
    run_script_not_allowed_403 [where req = "req_of [(''script'', JArr [JStr ''dein_script.py''])]"
      and d = "[(''script'', JArr [JStr ''dein_script.py''])]"
      and v = "JArr [JStr ''dein_script.py'']" and os = os_hello]
  by (simp add: req_of_def erlaubte_skripte_def)

text \<open>
  C4, as the spec has it: the body of every rejection is the object
  \<^verbatim>\<open>{"error": "Script not allowed"}\<close>. The request for \<^verbatim>\<open>other.py\<close> is rejected with
  another body.
\<close>

theorem rejection_message_counterexample:
  "fst (run_script os_hello (req_of [(''script'', JStr ''other.py'')])) \<noteq>
     Inr \<lparr>status = 403, payload = Json (JObj [(''error'', JStr ''Script not allowed'')])\<rparr>"
  by (simp add: run_script_def req_of_def erlaubte_skripte_def jsonify_def with_status_def)

text \<open>
  C4, amended: whenever \<^verbatim>\<open>/run\<close> rejects a request, the body is the fixed object
  \<^verbatim>\<open>{"error": "Script nicht erlaubt"}\<close>, the same for every rejected input.
\<close>

theorem rejection_message_fixed:
  assumes "request_json req = Inr (JObj d)"
    and "py_get (JObj d) ''script'' = Inr v"
    and "v \<notin> JStr ` set erlaubte_skripte"
  shows "\<exists>r. fst (run_script os req) = Inr r
    \<and> payload r = Json (JObj [(''error'', JStr ''Script nicht erlaubt'')])"
proof -
  from assms(3) have "v \<noteq> JStr ''dein_script.py''"
    by (simp add: in_erlaubte_skripte)
  with assms(1,2) show ?thesis
    by (simp add: run_script_rejected)
qed

theorem rejection_message_fixed_witness:
  "(\<exists>r. fst (run_script os_boom (req_of [(''script'', JStr ''other.py'')])) = Inr r
      \<and> payload r = Json (JObj [(''error'', JStr ''Script nicht erlaubt'')]))
   \<and> (\<exists>r. fst (run_script os_hello (req_of [(''script'', JInt 7)])) = Inr r
      \<and> payload r = Json (JObj [(''error'', JStr ''Script nicht erlaubt'')]))"
  using
    rejection_message_fixed [where req = "req_of [(''script'', JStr ''other.py'')]"
      and d = "[(''script'', JStr ''other.py'')]" and v = "JStr ''other.py''" and os = os_boom]
    rejection_message_fixed [where req = "req_of [(''script'', JInt 7)]"
      and d = "[(''script'', JInt 7)]" and v = "JInt 7" and os = os_hello]
  by (simp add: req_of_def erlaubte_skripte_def)

text \<open>
  C5: the allow-list is fixed and has exactly one entry, membership in it is equality
  with that entry as a string, character for character, and the handler goes on to
  run a subprocess if and only if the \<^verbatim>\<open>script\<close> value is that string.
\<close>

theorem allow_list_exact_match:
  assumes "request_json req = Inr (JObj d)"
    and "py_get (JObj d) ''script'' = Inr v"
  shows "length erlaubte_skripte = 1
    \<and> py_in v erlaubte_skripte = (v = JStr ''dein_script.py'')
    \<and> (snd (run_script os req) \<noteq> []) = (v = JStr ''dein_script.py'')"
  using assms
  by (simp add: py_in_erlaubte_skripte run_script_calls) (simp add: erlaubte_skripte_def)

theorem allow_list_exact_match_witness:
  "snd (run_script os_hello (req_of [(''script'', JStr ''dein_script.py'')])) \<noteq> []
   \<and> snd (run_script os_hello (req_of [(''script'', JStr ''Dein_Script.py'')])) = []
   \<and> snd (run_script os_hello (req_of [(''script'', JStr ''./dein_script.py'')])) = []
   \<and> snd (run_script os_hello (req_of [(''script'', JStr ''dein_script.py '')])) = []"
  using
    allow_list_exact_match [where req = "req_of [(''script'', JStr ''dein_script.py'')]"
      and d = "[(''script'', JStr ''dein_script.py'')]" and v = "JStr ''dein_script.py''"
      and os = os_hello]
    allow_list_exact_match [where req = "req_of [(''script'', JStr ''Dein_Script.py'')]"
      and d = "[(''script'', JStr ''Dein_Script.py'')]" and v = "JStr ''Dein_Script.py''"
      and os = os_hello]
    allow_list_exact_match [where req = "req_of [(''script'', JStr ''./dein_script.py'')]"
      and d = "[(''script'', JStr ''./dein_script.py'')]" and v = "JStr ''./dein_script.py''"
      and os = os_hello]
    allow_list_exact_match [where req = "req_of [(''script'', JStr ''dein_script.py '')]"
      and d = "[(''script'', JStr ''dein_script.py '')]" and v = "JStr ''dein_script.py ''"
      and os = os_hello]
  by (simp add: req_of_def)

subsection \<open>Running the script\<close>

text \<open>
  C2: for an allowed \<^verbatim>\<open>script\<close> value whose subprocess exits with status 0, the
  response has status 200 and the body \<^verbatim>\<open>{"output": s}\<close>, where \<open>s\<close> is the captured
  standard output; the captured standard error is dropped: a run that differs only in
  what the child wrote to its error stream gets the same response.
\<close>

theorem run_script_success_200:
  assumes "request_json req = Inr (JObj d)"
    and "py_get (JObj d) ''script'' = Inr v"
    and "v \<in> JStr ` set erlaubte_skripte"
    and "os [JStr ''python3'', v] = Exited 0 out err"
    and "os' [JStr ''python3'', v] = Exited 0 out err'"
  shows "fst (run_script os req) =
      Inr \<lparr>status = 200, payload = Json (JObj [(''output'', JStr out)])\<rparr>
    \<and> fst (run_script os' req) = fst (run_script os req)"
proof -
  from assms(3) have v: "v = JStr ''dein_script.py''"
    by (simp add: in_erlaubte_skripte)
  from assms(1,2,4) v have "fst (run_script os req) =
      Inr \<lparr>status = 200, payload = Json (JObj [(''output'', JStr out)])\<rparr>"
    by (simp add: run_script_exit_zero)
  moreover from assms(1,2,5) v have "fst (run_script os' req) =
      Inr \<lparr>status = 200, payload = Json (JObj [(''output'', JStr out)])\<rparr>"
    by (simp add: run_script_exit_zero)
  ultimately show ?thesis by simp
qed

theorem run_script_success_200_witness:
  "fst (run_script os_hello (req_of [(''script'', JStr ''dein_script.py'')])) =
      Inr \<lparr>status = 200, payload = Json (JObj [(''output'', JStr ''hello'')])\<rparr>
   \<and> fst (run_script os_hello_quiet (req_of [(''script'', JStr ''dein_script.py'')])) =
      fst (run_script os_hello (req_of [(''script'', JStr ''dein_script.py'')]))"
  using run_script_success_200 [where req = "req_of [(''script'', JStr ''dein_script.py'')]"
      and d = "[(''script'', JStr ''dein_script.py'')]" and v = "JStr ''dein_script.py''"
      and os = os_hello and os' = os_hello_quiet and out = "''hello''"
      and err = "''warning''" and err' = "[]"]
  by (simp add: req_of_def erlaubte_skripte_def os_hello_def os_hello_quiet_def)

text \<open>
  C3: for an allowed \<^verbatim>\<open>script\<close> value whose subprocess exits with a status other than
  0, the response has status 400 and the body \<^verbatim>\<open>{"error": e}\<close>, where \<open>e\<close> is the
  captured standard error.
\<close>

theorem run_script_failure_400:
  assumes "request_json req = Inr (JObj d)"
    and "py_get (JObj d) ''script'' = Inr v"
    and "v \<in> JStr ` set erlaubte_skripte"
    and "os [JStr ''python3'', v] = Exited rc out err"
    and "rc \<noteq> 0"
  shows "fst (run_script os req) =
      Inr \<lparr>status = 400, payload = Json (JObj [(''error'', JStr err)])\<rparr>"
proof -
  from assms(3) have "v = JStr ''dein_script.py''"
    by (simp add: in_erlaubte_skripte)
  with assms(1,2,4,5) show ?thesis
    by (simp add: run_script_exit_nonzero)
qed

theorem run_script_failure_400_witness:
  "fst (run_script os_boom (req_of [(''script'', JStr ''dein_script.py'')])) =
      Inr \<lparr>status = 400, payload = Json (JObj [(''error'', JStr ''boom'')])\<rparr>"
  using run_script_failure_400 [where req = "req_of [(''script'', JStr ''dein_script.py'')]"
      and d = "[(''script'', JStr ''dein_script.py'')]" and v = "JStr ''dein_script.py''"
      and os = os_boom and rc = 1 and out = "''partial''" and err = "''boom''"]
  by (simp add: req_of_def erlaubte_skripte_def os_boom_def)

text \<open>
  C10: when the subprocess fails, the body of the 400 response is a JSON object whose
  only key is \<^verbatim>\<open>error\<close>, with the captured standard error; the captured standard output
  is dropped: a failing run that differs in what the child printed (and in its
  non-zero status) gets the same response.
\<close>

theorem run_script_failure_drops_stdout:
  assumes "request_json req = Inr (JObj d)"
    and "py_get (JObj d) ''script'' = Inr v"
    and "v \<in> JStr ` set erlaubte_skripte"
    and "os [JStr ''python3'', v] = Exited rc out err"
    and "rc \<noteq> 0"
    and "os' [JStr ''python3'', v] = Exited rc' out' err"
    and "rc' \<noteq> 0"
  shows "(\<exists>r items. fst (run_script os req) = Inr r \<and> status r = 400
        \<and> payload r = Json (JObj items) \<and> map fst items = [''error'']
        \<and> map_of items ''error'' = Some (JStr err))
    \<and> fst (run_script os' req) = fst (run_script os req)"
proof -
  from assms(3) have v: "v = JStr ''dein_script.py''"
    by (simp add: in_erlaubte_skripte)
  from assms(1,2,4,5) v have a: "fst (run_script os req) =
      Inr \<lparr>status = 400, payload = Json (JObj [(''error'', JStr err)])\<rparr>"
    by (simp add: run_script_exit_nonzero)
  from assms(1,2,6,7) v have b: "fst (run_script os' req) =
      Inr \<lparr>status = 400, payload = Json (JObj [(''error'', JStr err)])\<rparr>"
    by (simp add: run_script_exit_nonzero)
  from a b show ?thesis by simp
qed

theorem run_script_failure_drops_stdout_witness:
  "(\<exists>r items. fst (run_script os_boom (req_of [(''script'', JStr ''dein_script.py'')])) = Inr r
        \<and> status r = 400
        \<and> payload r = Json (JObj items) \<and> map fst items = [''error'']
        \<and> map_of items ''error'' = Some (JStr ''boom''))
   \<and> fst (run_script os_boom_silent (req_of [(''script'', JStr ''dein_script.py'')])) =
      fst (run_script os_boom (req_of [(''script'', JStr ''dein_script.py'')]))"
  using run_script_failure_drops_stdout [where req = "req_of [(''script'', JStr ''dein_script.py'')]"
      and d = "[(''script'', JStr ''dein_script.py'')]" and v = "JStr ''dein_script.py''"
      and os = os_boom and rc = 1 and out = "''partial''" and err = "''boom''"
      and os' = os_boom_silent and rc' = 2 and out' = "[]"]
  by (simp add: req_of_def erlaubte_skripte_def os_boom_def os_boom_silent_def)

text \<open>
  C7: a request that passes the validation runs exactly one command through
  \<^verbatim>\<open>subprocess.run\<close>: \<^verbatim>\<open>python3 <script>\<close>, with the output captured, in text mode. The
  record of what the handler ran is the record of that one call, whatever the child
  does, and it is empty for a request that fails the validation. The handler waits
  for the child: its response is built from what the operating system reports of that
  command once the child has ended (the output for the status 0, the error stream for
  another status, the exception when the call raises), and from nothing else that the
  operating system could run: two systems that agree on this one command get the same
  result.
\<close>

theorem run_script_spawns_once:
  assumes "request_json req = Inr (JObj d)"
    and "py_get (JObj d) ''script'' = Inr v"
  shows "snd (run_script os req) =
      (if v \<in> JStr ` set erlaubte_skripte
       then [\<lparr>args = [JStr ''python3'', v], capture_output = True, text_mode = True, check = True\<rparr>]
       else [])
    \<and> (v \<in> JStr ` set erlaubte_skripte \<longrightarrow>
         snd (run_script os req) =
           snd (subprocess_run os \<lparr>args = [JStr ''python3'', v], capture_output = True,
                  text_mode = True, check = True\<rparr>)
         \<and> fst (run_script os req) =
           (case os [JStr ''python3'', v] of
              Exited rc out err \<Rightarrow>
                if rc = 0
                then Inr \<lparr>status = 200, payload = Json (JObj [(''output'', JStr out)])\<rparr>
                else Inr \<lparr>status = 400, payload = Json (JObj [(''error'', JStr err)])\<rparr>
            | Raised (CalledProcessError rc cmd out err) \<Rightarrow>
                Inr \<lparr>status = 400, payload = Json (JObj [(''error'', JStr err)])\<rparr>
            | Raised e \<Rightarrow> Inl e)
         \<and> (\<forall>os'. os' [JStr ''python3'', v] = os [JStr ''python3'', v] \<longrightarrow>
               run_script os' req = run_script os req))"
proof -
  have log: "snd (run_script os req) =
      (if v \<in> JStr ` set erlaubte_skripte
       then [\<lparr>args = [JStr ''python3'', v], capture_output = True, text_mode = True, check = True\<rparr>]
       else [])"
    using assms by (simp add: run_script_calls in_erlaubte_skripte)
  have acc: "v \<in> JStr ` set erlaubte_skripte \<Longrightarrow>
      run_script os1 req =
        (case os1 [JStr ''python3'', v] of
           Exited rc out err \<Rightarrow>
             if rc = 0
             then Inr \<lparr>status = 200, payload = Json (JObj [(''output'', JStr out)])\<rparr>
             else Inr \<lparr>status = 400, payload = Json (JObj [(''error'', JStr err)])\<rparr>
         | Raised (CalledProcessError rc cmd out err) \<Rightarrow>
             Inr \<lparr>status = 400, payload = Json (JObj [(''error'', JStr err)])\<rparr>
         | Raised e \<Rightarrow> Inl e,
         [\<lparr>args = [JStr ''python3'', v], capture_output = True, text_mode = True,
           check = True\<rparr>])" for os1
    using assms
    by (simp add: run_script_def py_in_iff subprocess_run_def jsonify_def with_status_def
        split: proc_outcome.split pyexc.split)
  have one: "v \<in> JStr ` set erlaubte_skripte \<Longrightarrow>
      os' [JStr ''python3'', v] = os [JStr ''python3'', v] \<Longrightarrow>
      run_script os' req = run_script os req" for os'
    by (simp add: acc)
  have ran: "snd (subprocess_run os \<lparr>args = [JStr ''python3'', v], capture_output = True,
      text_mode = True, check = True\<rparr>) =
      [\<lparr>args = [JStr ''python3'', v], capture_output = True, text_mode = True, check = True\<rparr>]"
    by (simp add: subprocess_run_def)
  from log ran one show ?thesis
    by (simp add: acc)
qed

theorem run_script_spawns_once_witness:
  "run_script os_hello (req_of [(''script'', JStr ''dein_script.py'')]) =
      (Inr \<lparr>status = 200, payload = Json (JObj [(''output'', JStr ''hello'')])\<rparr>,
       [\<lparr>args = [JStr ''python3'', JStr ''dein_script.py''], capture_output = True,
         text_mode = True, check = True\<rparr>])
   \<and> run_script os_boom (req_of [(''script'', JStr ''dein_script.py'')]) =
      (Inr \<lparr>status = 400, payload = Json (JObj [(''error'', JStr ''boom'')])\<rparr>,
       [\<lparr>args = [JStr ''python3'', JStr ''dein_script.py''], capture_output = True,
         text_mode = True, check = True\<rparr>])
   \<and> run_script os_missing (req_of [(''script'', JStr ''dein_script.py'')]) =
      (Inl (OtherException ''FileNotFoundError''),
       [\<lparr>args = [JStr ''python3'', JStr ''dein_script.py''], capture_output = True,
         text_mode = True, check = True\<rparr>])
   \<and> run_script os_hello_quiet (req_of [(''script'', JStr ''dein_script.py'')]) =
      run_script (os_boom([JStr ''python3'', JStr ''dein_script.py''] := Exited 0 ''hello'' []))
        (req_of [(''script'', JStr ''dein_script.py'')])
   \<and> snd (run_script os_hello (req_of [(''script'', JStr ''other.py'')])) = []"
proof -
  let ?req = "req_of [(''script'', JStr ''dein_script.py'')]"
  let ?d = "[(''script'', JStr ''dein_script.py'')]"
  let ?v = "JStr ''dein_script.py''"
  have body: "request_json ?req = Inr (JObj ?d)"
    by (simp add: req_of_def)
  have script: "py_get (JObj ?d) ''script'' = Inr ?v"
    by simp
  have allowed: "?v \<in> JStr ` set erlaubte_skripte"
    by (simp add: erlaubte_skripte_def)
  have same: "os_hello_quiet [JStr ''python3'', ?v] =
      (os_boom([JStr ''python3'', ?v] := Exited 0 ''hello'' [])) [JStr ''python3'', ?v]"
    by (simp add: os_hello_quiet_def)
  note hello = run_script_spawns_once [OF body script, where os = os_hello]
  note boom = run_script_spawns_once [OF body script, where os = os_boom]
  note missing = run_script_spawns_once [OF body script, where os = os_missing]
  note other = run_script_spawns_once [where req = "req_of [(''script'', JStr ''other.py'')]"
      and d = "[(''script'', JStr ''other.py'')]" and v = "JStr ''other.py''" and os = os_hello]
  note agree = run_script_spawns_once [OF body script,
      where os = "os_boom([JStr ''python3'', ?v] := Exited 0 ''hello'' [])"]
  have 1: "run_script os_hello ?req =
      (Inr \<lparr>status = 200, payload = Json (JObj [(''output'', JStr ''hello'')])\<rparr>,
       [\<lparr>args = [JStr ''python3'', ?v], capture_output = True, text_mode = True,
         check = True\<rparr>])"
    using hello allowed by (simp add: prod_eq_iff os_hello_def)
  have 2: "run_script os_boom ?req =
      (Inr \<lparr>status = 400, payload = Json (JObj [(''error'', JStr ''boom'')])\<rparr>,
       [\<lparr>args = [JStr ''python3'', ?v], capture_output = True, text_mode = True,
         check = True\<rparr>])"
    using boom allowed by (simp add: prod_eq_iff os_boom_def)
  have 3: "run_script os_missing ?req =
      (Inl (OtherException ''FileNotFoundError''),
       [\<lparr>args = [JStr ''python3'', ?v], capture_output = True, text_mode = True,
         check = True\<rparr>])"
    using missing allowed by (simp add: prod_eq_iff os_missing_def)
  have 4: "run_script os_hello_quiet ?req =
      run_script (os_boom([JStr ''python3'', ?v] := Exited 0 ''hello'' [])) ?req"
    using agree allowed same by blast
  have 5: "snd (run_script os_hello (req_of [(''script'', JStr ''other.py'')])) = []"
    using other by (simp add: req_of_def erlaubte_skripte_def)
  from 1 2 3 4 5 show ?thesis by simp
qed

subsection \<open>Independence of the validation\<close>

text \<open>
  C6: the validation depends on the \<^verbatim>\<open>script\<close> value and the allow-list only. Two runs
  of the handler on requests with the same \<^verbatim>\<open>script\<close> value, in any two environments
  and with any other fields in the body, take the same decision, and when they reject
  they return the same response and make no call of \<^verbatim>\<open>subprocess.run\<close>.
\<close>

theorem validation_deterministic:
  assumes "request_json req1 = Inr (JObj d1)"
    and "request_json req2 = Inr (JObj d2)"
    and "py_get (JObj d1) ''script'' = Inr v"
    and "py_get (JObj d2) ''script'' = Inr v"
  shows "(snd (run_script os1 req1) = []) = (snd (run_script os2 req2) = [])
    \<and> (snd (run_script os1 req1) = [] \<longrightarrow>
         run_script os1 req1 = run_script os2 req2 \<and> snd (run_script os2 req2) = [])"
proof (cases "v = JStr ''dein_script.py''")
  case True
  with assms show ?thesis
    by (simp add: run_script_calls)
next
  case False
  with assms have "run_script os1 req1 = run_script os2 req2"
    by (simp add: run_script_rejected)
  moreover from False assms have "snd (run_script os2 req2) = []"
    by (simp add: run_script_calls)
  ultimately show ?thesis by simp
qed

theorem validation_deterministic_witness:
  "snd (run_script os_hello (req_of [(''script'', JStr ''other.py'')])) = []
   \<and> run_script os_hello (req_of [(''script'', JStr ''other.py'')]) =
       run_script os_boom (req_of [(''user'', JInt 1), (''script'', JStr ''other.py'')])
   \<and> snd (run_script os_hello (req_of [(''script'', JStr ''dein_script.py'')])) \<noteq> []
   \<and> snd (run_script os_boom
        (req_of [(''user'', JInt 1), (''script'', JStr ''dein_script.py'')])) \<noteq> []"
proof -
  have rej: "snd (run_script os_hello (req_of [(''script'', JStr ''other.py'')])) = []"
    by (simp add: run_script_def req_of_def erlaubte_skripte_def)
  have acc: "snd (run_script os_hello (req_of [(''script'', JStr ''dein_script.py'')])) \<noteq> []"
    by (simp add: run_script_def req_of_def erlaubte_skripte_def subprocess_run_def os_hello_def)
  from rej acc
    validation_deterministic [where ?req1.0 = "req_of [(''script'', JStr ''other.py'')]"
      and ?d1.0 = "[(''script'', JStr ''other.py'')]"
      and ?req2.0 = "req_of [(''user'', JInt 1), (''script'', JStr ''other.py'')]"
      and ?d2.0 = "[(''user'', JInt 1), (''script'', JStr ''other.py'')]"
      and v = "JStr ''other.py''" and ?os1.0 = os_hello and ?os2.0 = os_boom]
    validation_deterministic [where ?req1.0 = "req_of [(''script'', JStr ''dein_script.py'')]"
      and ?d1.0 = "[(''script'', JStr ''dein_script.py'')]"
      and ?req2.0 = "req_of [(''user'', JInt 1), (''script'', JStr ''dein_script.py'')]"
      and ?d2.0 = "[(''user'', JInt 1), (''script'', JStr ''dein_script.py'')]"
      and v = "JStr ''dein_script.py''" and ?os1.0 = os_hello and ?os2.0 = os_boom]
  show ?thesis
    by (simp add: req_of_def)
qed

subsection \<open>Errors outside the handler\<close>

text \<open>
  C9: when \<^verbatim>\<open>request.json\<close> raises, because the body is not well-formed JSON or is
  absent, the handler does not catch the exception: it leaves the handler as it was
  raised, for Flask to answer, and no call of \<^verbatim>\<open>subprocess.run\<close> is made.
\<close>

theorem run_script_bad_body_propagates:
  assumes "request_json req = Inl e"
  shows "run_script os req = (Inl e, [])"
  using assms by (simp add: run_script_def)

theorem run_script_bad_body_propagates_witness:
  "run_script os_hello req_malformed = (Inl (HTTPException 400), [])"
  using run_script_bad_body_propagates [where req = req_malformed and e = "HTTPException 400"
      and os = os_hello]
  by (simp add: req_malformed_def)

subsection \<open>The static page\<close>

text \<open>
  C8: a GET of \<^verbatim>\<open>/\<close> returns status 200 with the bytes of the file \<^verbatim>\<open>index.html\<close> under
  the directory \<^verbatim>\<open>static\<close>; when that file is absent the request fails with NotFound
  (HTTP 404).
\<close>

theorem index_serves_index_html:
  "(fs (''static'', ''index.html'') = Some content \<longrightarrow>
      index fs = Inr \<lparr>status = 200, payload = Bytes content\<rparr>)
   \<and> (fs (''static'', ''index.html'') = None \<longrightarrow> index fs = Inl (HTTPException 404))"
  by (simp add: index_def send_from_directory_def)

theorem index_serves_index_html_witness:
  "index fs_page = Inr \<lparr>status = 200, payload = Bytes [60, 112, 62]\<rparr>
   \<and> index Map.empty = Inl (HTTPException 404)"
  using index_serves_index_html [where fs = fs_page and content = "[60, 112, 62]"]
    index_serves_index_html [where fs = Map.empty and content = "[]"]
  by (simp add: fs_page_def)

end
